theory Spec2Isabelle
  imports Main "HOL-Library.Sublist" "HOL-Library.Word"
begin

section \<open>Values of the JavaScript runtime\<close>

text \<open>
  The client (class \<open>RedashClient\<close>) receives every response body as an untyped
  value (\<open>response.data\<close> is \<open>any\<close>), so the model
  carries the values a parsed JSON body can be, plus \<open>undefined\<close>. A number is a
  safe integer, from \<open>-2^53\<close> to \<open>2^53 - 1\<close>: on these the strict comparison
  with 3 and 4, the truthiness test and the decimal rendering of a template literal are
  exact. The type holds no other number.
\<close>

type_synonym safe_int = "54 word"

datatype json =
    JUndefined
  | JNull
  | JBool bool
  | JNum safe_int
  | JStr string
  | JArr "json list"
  | JObj "(string \<times> json) list"

text \<open>What can be thrown inside the three functions: an \<open>Error\<close> made by
  \<open>new Error(msg)\<close>, a \<open>TypeError\<close> of the runtime (a property read on
  \<open>undefined\<close> or \<open>null\<close>, a value that has no string conversion), and the
  error with which an axios call rejects (its message, and its \<open>response\<close> as status
  and body when a response was received). All three are instances of \<open>Error\<close>.\<close>

datatype thrown =
    Error string
  | TypeError string
  | AxiosError string "(nat \<times> json) option"

fun message_of :: "thrown \<Rightarrow> string" where
  "message_of (Error m) = m"
| "message_of (TypeError m) = m"
| "message_of (AxiosError m r) = m"

text \<open>JavaScript truthiness, as used by \<open>if (x)\<close> and \<open>x || y\<close>.\<close>

fun truthy :: "json \<Rightarrow> bool" where
  "truthy JUndefined = False"
| "truthy JNull = False"
| "truthy (JBool b) = b"
| "truthy (JNum n) = (n \<noteq> 0)"
| "truthy (JStr s) = (s \<noteq> [])"
| "truthy (JArr xs) = True"
| "truthy (JObj kvs) = True"

text \<open>Decimal rendering of integers.\<close>

definition digit_char :: "nat \<Rightarrow> char" where
  "digit_char d = ''0123456789'' ! d"

fun show_nat :: "nat \<Rightarrow> string" where
  "show_nat n = (if n < 10 then [digit_char n] else show_nat (n div 10) @ [digit_char (n mod 10)])"

declare show_nat.simps [simp del]

definition show_int :: "int \<Rightarrow> string" where
  "show_int i = (if i < 0 then ''-'' @ show_nat (nat (- i)) else show_nat (nat i))"

definition show_safe :: "safe_int \<Rightarrow> string" where
  "show_safe n = show_int (sint n)"

fun join_comma :: "string list \<Rightarrow> string" where
  "join_comma [] = []"
| "join_comma [x] = x"
| "join_comma (x # y # ys) = x @ '','' @ join_comma (y # ys)"

text \<open>The string conversion of a template literal \<open>`${x}`\<close>. A parsed object has no
  callable member, so an object with a member named \<open>toString\<close> has no conversion
  (neither that member nor the inherited \<open>valueOf\<close> gives a primitive) and the
  template literal throws; any other object gives \<open>[object Object]\<close>. An array joins
  the conversions of its elements, \<open>null\<close> and \<open>undefined\<close> counting as empty,
  and throws where one of them does.\<close>

definition cannot_convert :: thrown where
  "cannot_convert = TypeError ''Cannot convert object to primitive value''"

fun sequence :: "(thrown + string) list \<Rightarrow> thrown + string list" where
  "sequence [] = Inr []"
| "sequence (r # rs) =
     (case r of
        Inl e \<Rightarrow> Inl e
      | Inr t \<Rightarrow> (case sequence rs of Inl e \<Rightarrow> Inl e | Inr ts \<Rightarrow> Inr (t # ts)))"

fun to_string :: "json \<Rightarrow> thrown + string" where
  "to_string JUndefined = Inr ''undefined''"
| "to_string JNull = Inr ''null''"
| "to_string (JBool b) = Inr (if b then ''true'' else ''false'')"
| "to_string (JNum n) = Inr (show_safe n)"
| "to_string (JStr s) = Inr s"
| "to_string (JArr xs) =
     (case sequence (map (\<lambda>x. if x = JUndefined \<or> x = JNull then Inr [] else to_string x) xs) of
        Inl e \<Rightarrow> Inl e
      | Inr ts \<Rightarrow> Inr (join_comma ts))"
| "to_string (JObj kvs) =
     (if ''toString'' \<in> set (map fst kvs) then Inl cannot_convert else Inr ''[object Object]'')"

text \<open>The text of a value that has a string conversion (empty for one that has none).
  It is used to name requests and messages in the statements below, never by the model of
  the code, which goes through \<open>to_string\<close> and throws where it throws.\<close>

definition rendered :: "json \<Rightarrow> string" where
  "rendered x = (case to_string x of Inl e \<Rightarrow> [] | Inr t \<Rightarrow> t)"

text \<open>A property read \<open>x.p\<close>: a \<open>TypeError\<close> on \<open>undefined\<close> and
  \<open>null\<close>, the member (or \<open>undefined\<close>) on an object, \<open>undefined\<close>
  on the other values (none of the names the client reads is a built-in property of a
  string, number, boolean, array or plain object).\<close>

definition cannot_read :: "string \<Rightarrow> string \<Rightarrow> string" where
  "cannot_read base p =
     ''Cannot read properties of '' @ base @ '' (reading '' @ [CHR 0x27] @ p @ [CHR 0x27] @ '')''"

fun get_prop :: "json \<Rightarrow> string \<Rightarrow> thrown + json" where
  "get_prop JUndefined p = Inl (TypeError (cannot_read ''undefined'' p))"
| "get_prop JNull p = Inl (TypeError (cannot_read ''null'' p))"
| "get_prop (JObj kvs) p = Inr (case map_of kvs p of None \<Rightarrow> JUndefined | Some v \<Rightarrow> v)"
| "get_prop (JBool b) p = Inr JUndefined"
| "get_prop (JNum n) p = Inr JUndefined"
| "get_prop (JStr s) p = Inr JUndefined"
| "get_prop (JArr xs) p = Inr JUndefined"

section \<open>The transport, the clock and the timer\<close>

datatype http_method = GET | POST

record request =
  meth :: http_method
  path :: string
  body :: json

text \<open>What the network gives back for one request: a response (status code and parsed
  body) or no response at all (connection, DNS, TLS failure or the client's own deadline),
  with the message axios puts on the error.\<close>

datatype reply =
    Response nat json
  | NoResponse string

text \<open>The world a run sees: the clock read by \<open>Date.now()\<close> (milliseconds, never
  set back during a run), the requests sent so far, and the state of the backend.\<close>

record 'w world =
  now :: nat
  sent :: "request list"
  backend :: 'w

text \<open>The environment is a parameter of every function:
  \<^item> \<open>transport\<close>: given the state of the backend, the time and a request, the time the
    call takes, the reply and the next state of the backend;
  \<^item> \<open>timer_lag\<close>: by how many milliseconds a timer armed in this state, at this time,
    for this delay fires late (a timer never fires early);
  \<^item> \<open>JSON_stringify\<close>: the text \<open>JSON.stringify\<close> gives for a value;
  \<^item> \<open>Number_toString\<close>: the text of a number from \<open>2^53\<close> on (below, it is the
    decimal rendering).\<close>

record 'w env =
  transport :: "'w \<Rightarrow> nat \<Rightarrow> request \<Rightarrow> (nat \<times> reply) \<times> 'w"
  timer_lag :: "'w \<Rightarrow> nat \<Rightarrow> nat \<Rightarrow> nat"
  JSON_stringify :: "json \<Rightarrow> string"
  Number_toString :: "nat \<Rightarrow> string"

definition number_text :: "'w env \<Rightarrow> nat \<Rightarrow> string" where
  "number_text E n = (if n < 2 ^ 53 then show_nat n else Number_toString E n)"

text \<open>One axios call (\<open>this.client.get\<close>, \<open>this.client.post\<close>): the promise
  resolves with the body on a 2xx status and rejects otherwise, with the response on the
  error when there was one.\<close>

definition settle :: "'w env \<Rightarrow> reply \<Rightarrow> thrown + json" where
  "settle E rep =
     (case rep of
        Response status data \<Rightarrow>
          if 200 \<le> status \<and> status < 300 then Inr data
          else Inl (AxiosError (''Request failed with status code '' @ number_text E status)
                      (Some (status, data)))
      | NoResponse msg \<Rightarrow> Inl (AxiosError msg None))"

definition axios_request :: "'w env \<Rightarrow> request \<Rightarrow> 'w world \<Rightarrow> (thrown + json) \<times> 'w world" where
  "axios_request E req s =
     (case transport E (backend s) (now s) req of
        ((latency, rep), b) \<Rightarrow>
          (settle E rep, s\<lparr>now := now s + latency, sent := sent s @ [req], backend := b\<rparr>))"

definition client_get :: "'w env \<Rightarrow> string \<Rightarrow> 'w world \<Rightarrow> (thrown + json) \<times> 'w world" where
  "client_get E p s = axios_request E \<lparr>meth = GET, path = p, body = JUndefined\<rparr> s"

definition client_post :: "'w env \<Rightarrow> string \<Rightarrow> json \<Rightarrow> 'w world \<Rightarrow> (thrown + json) \<times> 'w world" where
  "client_post E p d s = axios_request E \<lparr>meth = POST, path = p, body = d\<rparr> s"

text \<open>\<open>await new Promise(resolve => setTimeout(resolve, interval))\<close>. Node arms the
  timer for the given delay when it is between 1 and \<open>2^31 - 1\<close> ms and for 1 ms
  otherwise; the promise resolves after that delay and the lag of the timer.\<close>

definition timer_delay :: "nat \<Rightarrow> nat" where
  "timer_delay ms = (if 1 \<le> ms \<and> ms \<le> 2147483647 then ms else 1)"

definition sleep :: "'w env \<Rightarrow> nat \<Rightarrow> 'w world \<Rightarrow> 'w world" where
  "sleep E ms s = s\<lparr>now := now s + timer_delay ms + timer_lag E (backend s) (now s) ms\<rparr>"

section \<open>pollQueryResults\<close>

text \<open>The status fetch, \<open>this.client.get(`/api/jobs/${jobId}`)\<close>: the template literal
  is evaluated first and may throw.\<close>

definition fetch_status :: "'w env \<Rightarrow> json \<Rightarrow> 'w world \<Rightarrow> (thrown + json) \<times> 'w world" where
  "fetch_status E jobId s =
     (case to_string jobId of
        Inl e \<Rightarrow> (Inl e, s)
      | Inr j \<Rightarrow> client_get E (''/api/jobs/'' @ j) s)"

text \<open>The result fetch: the log line and then
  \<open>this.client.get(`/api/query_results/${job.query_result_id}`)\<close>, both converting the
  id to a string. It is written inline in the source; there is no cache in front of it.\<close>

definition fetch_result :: "'w env \<Rightarrow> json \<Rightarrow> 'w world \<Rightarrow> (thrown + json) \<times> 'w world" where
  "fetch_result E rid s =
     (case to_string rid of
        Inl e \<Rightarrow> (Inl e, s)
      | Inr r \<Rightarrow> client_get E (''/api/query_results/'' @ r) s)"

text \<open>The body of the \<open>try\<close> block up to the wait: \<open>Inl\<close> is what it throws,
  \<open>Inr (Some r)\<close> what it returns, \<open>Inr None\<close> that it falls through to the
  wait. The arguments of the \<open>logger.debug\<close> calls are template literals, evaluated
  whatever the log level: the one before the wait converts \<open>job.status\<close>.\<close>

definition poll_attempt :: "'w env \<Rightarrow> json \<Rightarrow> 'w world \<Rightarrow> (thrown + json option) \<times> 'w world" where
  "poll_attempt E jobId s =
     (case fetch_status E jobId s of
        (Inl e, s1) \<Rightarrow> (Inl e, s1)
      | (Inr data, s1) \<Rightarrow>
          (case get_prop data ''job'' of
             Inl e \<Rightarrow> (Inl e, s1)
           | Inr job \<Rightarrow>
               (case get_prop job ''status'' of
                  Inl e \<Rightarrow> (Inl e, s1)
                | Inr status \<Rightarrow>
                    if status = JNum 3 then
                      (case get_prop job ''query_result_id'' of
                         Inl e \<Rightarrow> (Inl e, s1)
                       | Inr rid \<Rightarrow>
                           if truthy rid then
                             (case fetch_result E rid s1 of
                                (Inl e, s2) \<Rightarrow> (Inl e, s2)
                              | (Inr result, s2) \<Rightarrow> (Inr (Some result), s2))
                           else (Inl (Error ''Query completed but no query_result_id was provided''), s1))
                    else if status = JNum 4 then
                      (case get_prop job ''error'' of
                         Inl e \<Rightarrow> (Inl e, s1)
                       | Inr err \<Rightarrow>
                           (case to_string err of
                              Inl e \<Rightarrow> (Inl e, s1)
                            | Inr t \<Rightarrow> (Inl (Error (''Query execution failed: '' @ t)), s1)))
                    else
                      (case to_string status of
                         Inl e \<Rightarrow> (Inl e, s1)
                       | Inr t \<Rightarrow> (Inr None, s1)))))"

text \<open>The \<open>catch\<close> block: what leaves it. Its first statement and the first message
  convert \<open>jobId\<close>, and one branch converts \<open>error.response.data.message\<close>;
  where a conversion throws, that \<open>TypeError\<close> leaves the block instead of the
  \<open>Error\<close> it was building.\<close>

definition poll_catch :: "'w env \<Rightarrow> json \<Rightarrow> thrown \<Rightarrow> thrown" where
  "poll_catch E jobId err =
     (case to_string jobId of
        Inl e \<Rightarrow> e
      | Inr j \<Rightarrow>
          (let errorMessage = ''Failed to poll for query results (job '' @ j @ '')'' in
           case err of
             AxiosError m (Some (status, data)) \<Rightarrow>
               if truthy data then
                 (case data of
                    JStr str \<Rightarrow> Error (errorMessage @ '': '' @ str)
                  | _ \<Rightarrow>
                    (case get_prop data ''message'' of
                       Inl e \<Rightarrow> e \<comment> \<open>not reached: a truthy value is not \<open>undefined\<close> or \<open>null\<close>\<close>
                     | Inr msg \<Rightarrow>
                         if truthy msg then
                           (case to_string msg of
                              Inl e \<Rightarrow> e
                            | Inr t \<Rightarrow> Error (errorMessage @ '': '' @ t))
                         else Error (errorMessage @ '': '' @ JSON_stringify E data)))
               else Error (errorMessage @ '': HTTP '' @ number_text E status)
           | AxiosError m None \<Rightarrow> Error (errorMessage @ '': '' @ m)
           | Error m \<Rightarrow> Error (errorMessage @ '': '' @ m)
           | TypeError m \<Rightarrow> Error (errorMessage @ '': '' @ m)))"

definition timeout_message :: "'w env \<Rightarrow> nat \<Rightarrow> string" where
  "timeout_message E timeout = ''Query execution timed out after '' @ number_text E timeout @ ''ms''"

text \<open>The \<open>while\<close> loop. The first argument bounds the number of iterations; a run
  that needs more gives \<open>None\<close>.\<close>

fun poll_loop :: "nat \<Rightarrow> 'w env \<Rightarrow> json \<Rightarrow> nat \<Rightarrow> nat \<Rightarrow> nat \<Rightarrow> 'w world
    \<Rightarrow> ((thrown + json) \<times> 'w world) option" where
  "poll_loop 0 E jobId timeout interval startTime s = None"
| "poll_loop (Suc fuel) E jobId timeout interval startTime s =
     (if now s - startTime < timeout then
        (case poll_attempt E jobId s of
           (Inl e, s1) \<Rightarrow> Some (Inl (poll_catch E jobId e), s1)
         | (Inr (Some result), s1) \<Rightarrow> Some (Inr result, s1)
         | (Inr None, s1) \<Rightarrow> poll_loop fuel E jobId timeout interval startTime (sleep E interval s1))
      else Some (Inl (Error (timeout_message E timeout)), s))"

definition pollQueryResults :: "nat \<Rightarrow> 'w env \<Rightarrow> json \<Rightarrow> nat \<Rightarrow> nat \<Rightarrow> 'w world
    \<Rightarrow> ((thrown + json) \<times> 'w world) option" where
  "pollQueryResults fuel E jobId timeout interval s =
     poll_loop fuel E jobId timeout interval (now s) s"

section \<open>executeQuery and executeQueryById\<close>

text \<open>The \<open>catch\<close> blocks of the two submissions. Everything thrown inside them is
  an instance of \<open>Error\<close>, so \<open>executeQuery\<close> takes its message.\<close>

definition execute_error :: "thrown \<Rightarrow> thrown" where
  "execute_error e = Error (''Failed to execute query: '' @ message_of e)"

definition execute_by_id_error :: "safe_int \<Rightarrow> thrown \<Rightarrow> thrown" where
  "execute_by_id_error queryId e = Error (''Failed to execute query '' @ show_safe queryId)"

text \<open>Both call \<open>pollQueryResults\<close> with the job id alone, so with its defaults of
  60000 ms and 1000 ms. \<open>maxAge\<close> is an optional argument with default 0.\<close>

definition requestData :: "string \<Rightarrow> safe_int \<Rightarrow> json \<Rightarrow> safe_int option \<Rightarrow> json" where
  "requestData query dataSourceId parameters maxAge =
     JObj [(''query'', JStr query),
           (''data_source_id'', JNum dataSourceId),
           (''parameters'', if truthy parameters then parameters else JObj []),
           (''max_age'', JNum (case maxAge of None \<Rightarrow> 0 | Some a \<Rightarrow> a))]"

definition executeQuery :: "nat \<Rightarrow> 'w env \<Rightarrow> string \<Rightarrow> safe_int \<Rightarrow> json \<Rightarrow> safe_int option \<Rightarrow> 'w world
    \<Rightarrow> ((thrown + json) \<times> 'w world) option" where
  "executeQuery fuel E query dataSourceId parameters maxAge s =
     (case client_post E ''/api/query_results'' (requestData query dataSourceId parameters maxAge) s of
        (Inl e, s1) \<Rightarrow> Some (Inl (execute_error e), s1)
      | (Inr data, s1) \<Rightarrow>
          (case get_prop data ''job'' of
             Inl e \<Rightarrow> Some (Inl (execute_error e), s1)
           | Inr job \<Rightarrow>
               if truthy job then
                 (case get_prop job ''id'' of
                    Inl e \<Rightarrow> Some (Inl (execute_error e), s1)
                  | Inr jobId \<Rightarrow>
                      (case pollQueryResults fuel E jobId 60000 1000 s1 of
                         None \<Rightarrow> None
                       | Some (Inl e, s2) \<Rightarrow> Some (Inl (execute_error e), s2)
                       | Some (Inr result, s2) \<Rightarrow> Some (Inr result, s2)))
               else
                 (case get_prop data ''query_result'' of
                    Inl e \<Rightarrow> Some (Inl (execute_error e), s1)
                  | Inr result \<Rightarrow> Some (Inr result, s1))))"

definition executeQueryById :: "nat \<Rightarrow> 'w env \<Rightarrow> safe_int \<Rightarrow> json \<Rightarrow> 'w world
    \<Rightarrow> ((thrown + json) \<times> 'w world) option" where
  "executeQueryById fuel E queryId parameters s =
     (case client_post E (''/api/queries/'' @ show_safe queryId @ ''/results'')
             (JObj [(''parameters'', parameters)]) s of
        (Inl e, s1) \<Rightarrow> Some (Inl (execute_by_id_error queryId e), s1)
      | (Inr data, s1) \<Rightarrow>
          (case get_prop data ''job'' of
             Inl e \<Rightarrow> Some (Inl (execute_by_id_error queryId e), s1)
           | Inr job \<Rightarrow>
               if truthy job then
                 (case get_prop job ''id'' of
                    Inl e \<Rightarrow> Some (Inl (execute_by_id_error queryId e), s1)
                  | Inr jobId \<Rightarrow>
                      (case pollQueryResults fuel E jobId 60000 1000 s1 of
                         None \<Rightarrow> None
                       | Some (Inl e, s2) \<Rightarrow> Some (Inl (execute_by_id_error queryId e), s2)
                       | Some (Inr result, s2) \<Rightarrow> Some (Inr result, s2)))
               else Some (Inr data, s1)))"

section \<open>What the backend reports\<close>

text \<open>The hypotheses of the properties below speak about the replies of the backend.
  \<open>reported_job E jobId s\<close> is the job descriptor in the body of a successful status
  fetch made in state \<open>s\<close>; \<open>field\<close> reads one of its members.\<close>

definition job_path :: "json \<Rightarrow> string" where
  "job_path jobId = ''/api/jobs/'' @ rendered jobId"

definition result_path :: "json \<Rightarrow> string" where
  "result_path rid = ''/api/query_results/'' @ rendered rid"

definition poll_prefix :: "json \<Rightarrow> string" where
  "poll_prefix jobId = ''Failed to poll for query results (job '' @ rendered jobId @ '')''"

definition job_request :: "json \<Rightarrow> request" where
  "job_request jobId = \<lparr>meth = GET, path = job_path jobId, body = JUndefined\<rparr>"

definition result_request :: "json \<Rightarrow> request" where
  "result_request rid = \<lparr>meth = GET, path = result_path rid, body = JUndefined\<rparr>"

definition execute_request :: "string \<Rightarrow> safe_int \<Rightarrow> json \<Rightarrow> safe_int option \<Rightarrow> request" where
  "execute_request query dataSourceId parameters maxAge =
     \<lparr>meth = POST, path = ''/api/query_results'',
      body = requestData query dataSourceId parameters maxAge\<rparr>"

definition execute_by_id_request :: "safe_int \<Rightarrow> json \<Rightarrow> request" where
  "execute_by_id_request queryId parameters =
     \<lparr>meth = POST, path = ''/api/queries/'' @ show_safe queryId @ ''/results'',
      body = JObj [(''parameters'', parameters)]\<rparr>"

definition field :: "json \<Rightarrow> string \<Rightarrow> json" where
  "field x p = (case get_prop x p of Inl e \<Rightarrow> JUndefined | Inr v \<Rightarrow> v)"

definition reported_job :: "'w env \<Rightarrow> json \<Rightarrow> 'w world \<Rightarrow> json option" where
  "reported_job E jobId s =
     (case fst (fetch_status E jobId s) of
        Inl e \<Rightarrow> None
      | Inr data \<Rightarrow>
          (case get_prop data ''job'' of
             Inl e \<Rightarrow> None
           | Inr job \<Rightarrow> if job = JUndefined \<or> job = JNull then None else Some job))"

text \<open>A reported status on which the loop goes on: neither 3 nor 4, and a value that the
  log line before the wait can convert to a string.\<close>

definition non_terminal :: "'w env \<Rightarrow> json \<Rightarrow> 'w world \<Rightarrow> bool" where
  "non_terminal E jobId s =
     (case reported_job E jobId s of
        None \<Rightarrow> False
      | Some job \<Rightarrow>
          field job ''status'' \<noteq> JNum 3 \<and> field job ''status'' \<noteq> JNum 4 \<and>
          (case to_string (field job ''status'') of Inl e \<Rightarrow> False | Inr t \<Rightarrow> True))"

text \<open>The state after one status fetch, and after one status fetch and the wait.\<close>

definition after_status :: "'w env \<Rightarrow> json \<Rightarrow> 'w world \<Rightarrow> 'w world" where
  "after_status E jobId s = snd (fetch_status E jobId s)"

definition pending_step :: "'w env \<Rightarrow> json \<Rightarrow> nat \<Rightarrow> 'w world \<Rightarrow> 'w world" where
  "pending_step E jobId interval s = sleep E interval (after_status E jobId s)"

fun after_polls :: "nat \<Rightarrow> 'w env \<Rightarrow> json \<Rightarrow> nat \<Rightarrow> 'w world \<Rightarrow> 'w world" where
  "after_polls 0 E jobId interval s = s"
| "after_polls (Suc k) E jobId interval s =
     after_polls k E jobId interval (pending_step E jobId interval s)"

text \<open>The first \<open>k\<close> status fetches of a run that started at \<open>startTime\<close> are made
  before the timeout and report a status that is neither 3 nor 4.\<close>

fun keeps_polling :: "nat \<Rightarrow> 'w env \<Rightarrow> json \<Rightarrow> nat \<Rightarrow> nat \<Rightarrow> nat \<Rightarrow> 'w world \<Rightarrow> bool" where
  "keeps_polling 0 E jobId timeout interval startTime s = True"
| "keeps_polling (Suc k) E jobId timeout interval startTime s =
     (now s - startTime < timeout \<and> non_terminal E jobId s \<and>
      keeps_polling k E jobId timeout interval startTime (pending_step E jobId interval s))"


section \<open>Example backends\<close>

text \<open>A backend that answers from a script: its state is the list of the answers still to
  give, each with the time the call takes. Its timers fire on time.\<close>

definition scripted :: "(nat \<times> reply) list env" where
  "scripted =
     \<lparr>transport = (\<lambda>b t req. case b of
                      [] \<Rightarrow> ((0, NoResponse ''socket hang up''), [])
                    | x # xs \<Rightarrow> (x, xs)),
      timer_lag = (\<lambda>b t ms. 0),
      JSON_stringify = (\<lambda>d. ''{}''),
      Number_toString = show_nat\<rparr>"

definition job_body :: "(string \<times> json) list \<Rightarrow> json" where
  "job_body members = JObj [(''job'', JObj members)]"

definition start_with :: "(nat \<times> reply) list \<Rightarrow> (nat \<times> reply) list world" where
  "start_with script = \<lparr>now = 0, sent = [], backend = script\<rparr>"

text \<open>The status sequence pending, running, completed with result 42, then the result.\<close>

definition scenario2 :: "(nat \<times> reply) list world" where
  "scenario2 = start_with
     [(100, Response 200 (job_body [(''status'', JNum 1)])),
      (100, Response 200 (job_body [(''status'', JNum 2)])),
      (100, Response 200 (job_body [(''status'', JNum 3), (''query_result_id'', JNum 42)])),
      (250, Response 200 (JObj [(''id'', JNum 42)]))]"

definition failed_run :: "(nat \<times> reply) list world" where
  "failed_run = start_with
     [(100, Response 200 (job_body [(''status'', JNum 1)])),
      (100, Response 200 (job_body [(''status'', JNum 4), (''error'', JStr ''division by zero'')]))]"

definition no_id_run :: "(nat \<times> reply) list world" where
  "no_id_run = start_with [(100, Response 200 (job_body [(''status'', JNum 3)]))]"

definition falsy_id_run :: "(nat \<times> reply) list world" where
  "falsy_id_run = start_with
     [(100, Response 200 (job_body [(''status'', JNum 3), (''query_result_id'', JNum 0)]))]"



text \<open>A status fetch answered with status 500 and the body
  \<open>{"message": {"toString": 1}}\<close>.\<close>

definition unprintable_run :: "(nat \<times> reply) list world" where
  "unprintable_run = start_with
     [(70, Response 500 (JObj [(''message'', JObj [(''toString'', JNum 1)])]))]"

definition malformed_run :: "(nat \<times> reply) list world" where
  "malformed_run = start_with [(100, Response 200 JNull)]"


definition slow_start :: "unit world" where
  "slow_start = \<lparr>now = 0, sent = [], backend = ()\<rparr>"

definition slow_end :: "unit world" where
  "slow_end = \<lparr>now = 16, sent = [job_request (JStr ''abc''), job_request (JStr ''abc'')], backend = ()\<rparr>"

text \<open>A stateless backend: result 42 is always the same, and every job is completed with
  result 42.\<close>

definition stable_backend :: "unit env" where
  "stable_backend =
     \<lparr>transport = (\<lambda>b t req.
        if path req = result_path (JNum 42)
        then ((250, Response 200 (JObj [(''id'', JNum 42)])), ())
        else ((100, Response 200 (job_body [(''status'', JNum 3), (''query_result_id'', JNum 42)])), ())),
      timer_lag = (\<lambda>b t ms. 0),
      JSON_stringify = (\<lambda>d. ''{}''),
      Number_toString = show_nat\<rparr>"

text \<open>A submission answered at once with a result, and one answered with status 500.\<close>

definition direct_body :: json where
  "direct_body = JObj [(''query_result'', JObj [(''id'', JNum 10)])]"

definition direct_run :: "(nat \<times> reply) list world" where
  "direct_run = start_with [(80, Response 200 direct_body)]"

definition rejected_run :: "(nat \<times> reply) list world" where
  "rejected_run = start_with [(80, Response 500 (JStr ''boom''))]"

section \<open>Basic facts about the conversions, one poll attempt and the loop\<close>

text \<open>The definitions unfolded to evaluate an example run.\<close>

lemmas run_defs = scripted_def job_body_def start_with_def client_get_def client_post_def
  axios_request_def settle_def number_text_def pending_step_def after_status_def sleep_def
  timer_delay_def reported_job_def non_terminal_def field_def fetch_status_def fetch_result_def
  job_request_def result_request_def job_path_def result_path_def rendered_def

lemma sequence_Inl:
  assumes "sequence rs = Inl e"
  shows "Inl e \<in> set rs"
  using assms by (induction rs) (auto split: sum.splits)

lemma to_string_Inl:
  assumes "to_string x = Inl e"
  shows "e = cannot_convert"
  using assms
proof (induction x arbitrary: e rule: to_string.induct)
  case (6 xs)
  from "6.prems" have "sequence (map (\<lambda>x. if x = JUndefined \<or> x = JNull then Inr [] else to_string x) xs) = Inl e"
    by (simp split: sum.splits)
  then have "Inl e \<in> set (map (\<lambda>x. if x = JUndefined \<or> x = JNull then Inr [] else to_string x) xs)"
    by (rule sequence_Inl)
  then obtain x where "x \<in> set xs" and "x \<noteq> JUndefined" "x \<noteq> JNull" and "to_string x = Inl e"
    by (auto split: if_splits)
  then show ?case using "6.IH" by blast
qed (auto split: if_splits)


lemma client_get_sent: "sent (snd (client_get E p s)) = sent s @ [\<lparr>meth = GET, path = p, body = JUndefined\<rparr>]"
  by (simp add: client_get_def axios_request_def split: prod.splits)

lemma client_get_now: "now s \<le> now (snd (client_get E p s))"
  by (simp add: client_get_def axios_request_def split: prod.splits)

lemma fetch_status_eq:
  "to_string jobId = Inr j \<Longrightarrow> fetch_status E jobId s = client_get E (job_path jobId) s"
  by (simp add: fetch_status_def job_path_def rendered_def)

lemma fetch_result_eq:
  "to_string rid = Inr r \<Longrightarrow> fetch_result E rid s = client_get E (result_path rid) s"
  by (simp add: fetch_result_def result_path_def rendered_def)

lemma fetch_status_now: "now s \<le> now (snd (fetch_status E jobId s))"
  by (simp add: fetch_status_def client_get_now split: sum.splits)

lemma fetch_result_now: "now s \<le> now (snd (fetch_result E rid s))"
  by (simp add: fetch_result_def client_get_now split: sum.splits)

lemma fetch_result_sent:
  "to_string rid = Inr r \<Longrightarrow> sent (snd (fetch_result E rid s)) = sent s @ [result_request rid]"
  by (simp add: fetch_result_eq client_get_sent result_request_def)

lemma fetch_result_Inr_sent:
  assumes "fetch_result E rid s = (Inr payload, s')"
  shows "sent s' = sent s @ [result_request rid]"
proof (cases "to_string rid")
  case (Inl e)
  with assms show ?thesis by (simp add: fetch_result_def)
next
  case (Inr r)
  from fetch_result_sent [OF this, of E s] assms show ?thesis by simp
qed

lemma reported_job_convertible:
  assumes "reported_job E jobId s = Some job"
  obtains j where "to_string jobId = Inr j"
  using assms by (cases "to_string jobId") (simp_all add: reported_job_def fetch_status_def)

lemma after_status_sent:
  assumes "reported_job E jobId s = Some job"
  shows "sent (after_status E jobId s) = sent s @ [job_request jobId]"
proof -
  from assms obtain j where "to_string jobId = Inr j" by (rule reported_job_convertible)
  then show ?thesis
    by (simp add: after_status_def fetch_status_eq job_request_def client_get_sent)
qed

lemma non_terminal_reported:
  assumes "non_terminal E jobId s"
  obtains job t where "reported_job E jobId s = Some job"
    and "field job ''status'' \<noteq> JNum 3" and "field job ''status'' \<noteq> JNum 4"
    and "to_string (field job ''status'') = Inr t"
  using assms by (auto simp: non_terminal_def split: option.splits sum.splits)

lemma pending_step_sent:
  assumes "non_terminal E jobId s"
  shows "sent (pending_step E jobId interval s) = sent s @ [job_request jobId]"
  using assms by (elim non_terminal_reported) (simp add: pending_step_def sleep_def after_status_sent)

lemma after_polls_sent:
  assumes "keeps_polling k E jobId timeout interval startTime s"
  shows "sent (after_polls k E jobId interval s) = sent s @ replicate k (job_request jobId)"
  using assms
  by (induction k arbitrary: s) (simp_all add: pending_step_sent replicate_app_Cons_same)


lemma reported_jobD:
  assumes "reported_job E jobId s = Some job"
  obtains data where "fetch_status E jobId s = (Inr data, after_status E jobId s)"
    and "get_prop data ''job'' = Inr job" and "get_prop job ''status'' = Inr (field job ''status'')"
    and "get_prop job ''query_result_id'' = Inr (field job ''query_result_id'')"
    and "get_prop job ''error'' = Inr (field job ''error'')"
proof -
  from assms obtain data where d: "fst (fetch_status E jobId s) = Inr data"
    and j: "get_prop data ''job'' = Inr job" and n: "job \<noteq> JUndefined" "job \<noteq> JNull"
    by (auto simp: reported_job_def split: sum.splits if_splits)
  have g: "get_prop job p = Inr (field job p)" for p
    using n by (cases job) (simp_all add: field_def)
  have "fetch_status E jobId s = (Inr data, after_status E jobId s)"
    using d by (simp add: after_status_def prod_eq_iff)
  then show thesis using j g that by blast
qed

lemma poll_attempt_non_terminal:
  assumes "non_terminal E jobId s"
  shows "poll_attempt E jobId s = (Inr None, after_status E jobId s)"
proof -
  from assms obtain job t where r: "reported_job E jobId s = Some job"
    and st: "field job ''status'' \<noteq> JNum 3" "field job ''status'' \<noteq> JNum 4"
      "to_string (field job ''status'') = Inr t"
    by (rule non_terminal_reported)
  from r show ?thesis
    by (rule reported_jobD) (simp add: poll_attempt_def st)
qed

lemma poll_attempt_completed:
  assumes "reported_job E jobId s = Some job" and "field job ''status'' = JNum 3"
    and "truthy (field job ''query_result_id'')"
  shows "poll_attempt E jobId s =
     (case fetch_result E (field job ''query_result_id'') (after_status E jobId s) of
        (Inl e, s2) \<Rightarrow> (Inl e, s2)
      | (Inr result, s2) \<Rightarrow> (Inr (Some result), s2))"
  using assms(1) by (rule reported_jobD) (simp add: poll_attempt_def assms(2,3))

lemma poll_attempt_no_result_id:
  assumes "reported_job E jobId s = Some job" and "field job ''status'' = JNum 3"
    and "\<not> truthy (field job ''query_result_id'')"
  shows "poll_attempt E jobId s =
     (Inl (Error ''Query completed but no query_result_id was provided''), after_status E jobId s)"
  using assms(1) by (rule reported_jobD) (simp add: poll_attempt_def assms(2,3))

lemma poll_attempt_failed:
  assumes "reported_job E jobId s = Some job" and "field job ''status'' = JNum 4"
    and "to_string (field job ''error'') = Inr t"
  shows "poll_attempt E jobId s =
     (Inl (Error (''Query execution failed: '' @ t)), after_status E jobId s)"
  using assms(1) by (rule reported_jobD) (simp add: poll_attempt_def assms(2,3))


lemma poll_loop_pending:
  assumes "now s - startTime < timeout" and "non_terminal E jobId s"
  shows "poll_loop (Suc fuel) E jobId timeout interval startTime s =
         poll_loop fuel E jobId timeout interval startTime (pending_step E jobId interval s)"
  using assms by (simp add: poll_attempt_non_terminal pending_step_def)

lemma poll_loop_after_polls:
  assumes "keeps_polling k E jobId timeout interval startTime s"
  shows "poll_loop (k + fuel) E jobId timeout interval startTime s =
         poll_loop fuel E jobId timeout interval startTime (after_polls k E jobId interval s)"
  using assms
proof (induction k arbitrary: s)
  case 0
  then show ?case by simp
next
  case (Suc k)
  then show ?case using poll_loop_pending [of s startTime timeout E jobId "k + fuel" interval]
    by simp
qed

lemma poll_catch_Error:
  assumes "to_string jobId = Inr j"
  shows "poll_catch E jobId (Error m) = Error (poll_prefix jobId @ '': '' @ m)"
  using assms by (simp add: poll_catch_def poll_prefix_def rendered_def)

text \<open>What leaves the \<open>catch\<close> block is an \<open>Error\<close> whose message begins with the
  prefix, or the \<open>TypeError\<close> of a conversion that failed inside the block.\<close>

lemma poll_catch_cases:
  "poll_catch E jobId e = cannot_convert \<or>
   (\<exists>m. poll_catch E jobId e = Error m \<and>
        prefix (''Failed to poll for query results (job '' @ rendered jobId @ '')'') m)"
proof (cases "to_string jobId")
  case (Inl x)
  then show ?thesis using to_string_Inl [OF Inl] by (simp add: poll_catch_def)
next
  case (Inr j)
  show ?thesis
  proof (cases e)
    case (AxiosError m r)
    show ?thesis
    proof (cases r)
      case None
      with Inr AxiosError show ?thesis by (simp add: poll_catch_def rendered_def)
    next
      case (Some sd)
      obtain status data where sd: "sd = (status, data)" by (cases sd)
      show ?thesis
      proof (cases "truthy data")
        case False
        with Inr AxiosError Some sd show ?thesis by (simp add: poll_catch_def rendered_def)
      next
        case True
        show ?thesis
          using Inr AxiosError Some sd True
          by (cases data)
            (auto simp: poll_catch_def rendered_def Let_def dest!: to_string_Inl split: sum.splits option.splits)
      qed
    qed
  qed (simp_all add: Inr poll_catch_def rendered_def)
qed

lemma poll_attempt_state:
  "snd (poll_attempt E jobId s) = after_status E jobId s \<or>
   (\<exists>rid. snd (poll_attempt E jobId s) = snd (fetch_result E rid (after_status E jobId s)))"
proof -
  obtain r s1 where f: "fetch_status E jobId s = (r, s1)" by (cases "fetch_status E jobId s")
  then have s1: "after_status E jobId s = s1" by (simp add: after_status_def)
  show ?thesis
  proof (cases r)
    case (Inl e)
    with f s1 show ?thesis by (simp add: poll_attempt_def)
  next
    case (Inr data)
    note d = this
    show ?thesis
    proof (cases "get_prop data ''job''")
      case (Inl e)
      with f s1 d show ?thesis by (simp add: poll_attempt_def)
    next
      case (Inr job)
      note j = this
      show ?thesis
      proof (cases "get_prop job ''status''")
        case (Inl e)
        with f s1 d j show ?thesis by (simp add: poll_attempt_def)
      next
        case (Inr status)
        note st = this
        consider (completed) "status = JNum 3" | (failed) "status \<noteq> JNum 3" "status = JNum 4"
          | (other) "status \<noteq> JNum 3" "status \<noteq> JNum 4" by blast
        then show ?thesis
        proof cases
          case completed
          show ?thesis
          proof (cases "get_prop job ''query_result_id''")
            case (Inl e)
            with f s1 d j st completed show ?thesis by (simp add: poll_attempt_def)
          next
            case (Inr rid)
            show ?thesis
            proof (cases "truthy rid")
              case False
              with f s1 d j st completed Inr show ?thesis by (simp add: poll_attempt_def)
            next
              case True
              have "snd (poll_attempt E jobId s) = snd (fetch_result E rid s1)"
                using f d j st completed Inr True
                by (simp add: poll_attempt_def split: prod.splits sum.splits)
              with s1 show ?thesis by blast
            qed
          qed
        next
          case failed
          with f s1 d j st show ?thesis by (simp add: poll_attempt_def split: sum.splits)
        next
          case other
          with f s1 d j st show ?thesis by (simp add: poll_attempt_def split: sum.splits)
        qed
      qed
    qed
  qed
qed

lemma fetch_result_sent_cases:
  "sent (snd (fetch_result E rid s)) = sent s \<or>
   sent (snd (fetch_result E rid s)) = sent s @ [result_request rid]"
  by (cases "to_string rid") (simp_all add: fetch_result_sent, simp add: fetch_result_def)

lemma poll_attempt_sent:
  "sent (snd (poll_attempt E jobId s)) = sent s \<or>
   sent (snd (poll_attempt E jobId s)) = sent s @ [job_request jobId] \<or>
   (\<exists>rid. sent (snd (poll_attempt E jobId s)) = sent s @ [job_request jobId, result_request rid])"
proof (cases "to_string jobId")
  case (Inl e)
  then show ?thesis by (simp add: poll_attempt_def fetch_status_def)
next
  case (Inr j)
  have a: "sent (after_status E jobId s) = sent s @ [job_request jobId]"
    using Inr by (simp add: after_status_def fetch_status_eq client_get_sent job_request_def)
  from poll_attempt_state [of E jobId s] show ?thesis
  proof
    assume "snd (poll_attempt E jobId s) = after_status E jobId s"
    with a show ?thesis by simp
  next
    assume "\<exists>rid. snd (poll_attempt E jobId s) = snd (fetch_result E rid (after_status E jobId s))"
    then obtain rid where "snd (poll_attempt E jobId s) = snd (fetch_result E rid (after_status E jobId s))" ..
    with fetch_result_sent_cases [of E rid "after_status E jobId s"] a show ?thesis by auto
  qed
qed

lemma poll_attempt_now: "now s \<le> now (snd (poll_attempt E jobId s))"
proof -
  have le: "now s \<le> now (after_status E jobId s)"
    by (simp add: after_status_def fetch_status_now)
  from poll_attempt_state [of E jobId s] show ?thesis
  proof
    assume "snd (poll_attempt E jobId s) = after_status E jobId s"
    with le show ?thesis by simp
  next
    assume "\<exists>rid. snd (poll_attempt E jobId s) = snd (fetch_result E rid (after_status E jobId s))"
    then obtain rid where "snd (poll_attempt E jobId s) = snd (fetch_result E rid (after_status E jobId s))" ..
    with fetch_result_now [of "after_status E jobId s" E rid] le show ?thesis by simp
  qed
qed

lemma after_status_after_polls_sent:
  assumes "keeps_polling k E jobId timeout interval startTime s"
    and "reported_job E jobId (after_polls k E jobId interval s) = Some job"
  shows "sent (after_status E jobId (after_polls k E jobId interval s)) =
     sent s @ replicate (Suc k) (job_request jobId)"
  using after_status_sent [OF assms(2)] after_polls_sent [OF assms(1)]
  by (simp add: replicate_append_same)

lemma poll_no_result_id:
  assumes "keeps_polling k E jobId timeout interval (now s) s"
    and "now (after_polls k E jobId interval s) - now s < timeout"
    and "reported_job E jobId (after_polls k E jobId interval s) = Some job"
    and "field job ''status'' = JNum 3"
    and "\<not> truthy (field job ''query_result_id'')"
  shows "pollQueryResults (k + Suc fuel) E jobId timeout interval s =
           Some (Inl (Error (poll_prefix jobId @ '': Query completed but no query_result_id was provided'')),
                 after_status E jobId (after_polls k E jobId interval s))"
proof -
  let ?sk = "after_polls k E jobId interval s"
  from assms(3) obtain j where j: "to_string jobId = Inr j" by (rule reported_job_convertible)
  have "pollQueryResults (k + Suc fuel) E jobId timeout interval s =
        poll_loop (Suc fuel) E jobId timeout interval (now s) ?sk"
    using assms(1) by (simp only: pollQueryResults_def poll_loop_after_polls)
  also have "\<dots> = Some (Inl (Error (poll_prefix jobId @ '': Query completed but no query_result_id was provided'')),
                 after_status E jobId ?sk)"
    using assms(2) poll_attempt_no_result_id [OF assms(3,4,5)] by (simp add: poll_catch_Error [OF j])
  finally show ?thesis .
qed

text \<open>Every failure of the loop is the timeout \<open>Error\<close>, an \<open>Error\<close> whose message
  begins with the prefix, or the \<open>TypeError\<close> of a conversion that failed inside the
  \<open>catch\<close> block.\<close>

lemma poll_loop_errors:
  assumes "poll_loop fuel E jobId timeout interval startTime s = Some (Inl e, s')"
  shows "e = Error (''Query execution timed out after '' @ number_text E timeout @ ''ms'') \<or>
         (\<exists>m. e = Error m \<and>
              prefix (''Failed to poll for query results (job '' @ rendered jobId @ '')'') m) \<or>
         e = TypeError ''Cannot convert object to primitive value''"
  using assms
proof (induction fuel arbitrary: s)
  case 0
  then show ?case by simp
next
  case (Suc fuel)
  show ?case
  proof (cases "now s - startTime < timeout")
    case False
    with Suc.prems show ?thesis by (auto simp: timeout_message_def)
  next
    case True
    obtain r s1 where a: "poll_attempt E jobId s = (r, s1)" by (cases "poll_attempt E jobId s")
    show ?thesis
    proof (cases r)
      case (Inl x)
      with Suc.prems True a have "e = poll_catch E jobId x" by simp
      with poll_catch_cases [of E jobId x] show ?thesis by (auto simp: cannot_convert_def)
    next
      case (Inr y)
      show ?thesis
      proof (cases y)
        case None
        with Suc.prems True a Inr
        have "poll_loop fuel E jobId timeout interval startTime (sleep E interval s1) = Some (Inl e, s')"
          by simp
        then show ?thesis by (rule Suc.IH)
      next
        case (Some res)
        with Suc.prems True a Inr show ?thesis by simp
      qed
    qed
  qed
qed

lemma sleep_now: "now s + timer_delay ms \<le> now (sleep E ms s)"
  by (simp add: sleep_def)

lemma timer_delay_pos: "0 < timer_delay ms"
  by (simp add: timer_delay_def)

lemma timer_delay_id: "1 \<le> ms \<Longrightarrow> ms \<le> 2147483647 \<Longrightarrow> timer_delay ms = ms"
  by (simp add: timer_delay_def)


text \<open>The loop ends on every backend: each iteration that goes on moves the clock by at
  least one millisecond.\<close>

lemma poll_loop_returns:
  assumes "startTime \<le> now s" and "timeout - (now s - startTime) < fuel"
  shows "\<exists>r. poll_loop fuel E jobId timeout interval startTime s = Some r"
  using assms
proof (induction fuel arbitrary: s)
  case 0
  then show ?case by simp
next
  case (Suc fuel)
  show ?case
  proof (cases "now s - startTime < timeout")
    case False
    then show ?thesis by simp
  next
    case True
    obtain r s1 where a: "poll_attempt E jobId s = (r, s1)" by (cases "poll_attempt E jobId s")
    have le: "now s \<le> now s1" using poll_attempt_now [of s E jobId] a by simp
    show ?thesis
    proof (cases r)
      case (Inl e)
      with True a show ?thesis by simp
    next
      case (Inr y)
      show ?thesis
      proof (cases y)
        case (Some res)
        with True a Inr show ?thesis by simp
      next
        case None
        have lt: "now s1 < now (sleep E interval s1)"
          using sleep_now [of s1 interval E] timer_delay_pos [of interval] by linarith
        have p1: "startTime \<le> now (sleep E interval s1)"
          using Suc.prems(1) le lt by linarith
        have p2: "timeout - (now (sleep E interval s1) - startTime) < fuel"
          using Suc.prems True le lt by linarith
        from Suc.IH [OF p1 p2] True a Inr None show ?thesis by simp
      qed
    qed
  qed
qed

lemma pollQueryResults_returns:
  assumes "timeout < fuel"
  shows "\<exists>r. pollQueryResults fuel E jobId timeout interval s = Some r"
  unfolding pollQueryResults_def using assms by (intro poll_loop_returns) simp_all

text \<open>More fuel does not change a result.\<close>

lemma poll_loop_more_fuel:
  assumes "poll_loop fuel E jobId timeout interval startTime s = Some r"
  shows "poll_loop (fuel + n) E jobId timeout interval startTime s = Some r"
  using assms
proof (induction fuel arbitrary: s)
  case 0
  then show ?case by simp
next
  case (Suc fuel)
  then show ?case
    by (auto split: if_splits prod.splits sum.splits option.splits)
qed



lemma show_nat_digit: "n < 10 \<Longrightarrow> show_nat n = [digit_char n]"
  by (simp add: show_nat.simps)



lemma fetch_result_stable:
  assumes "\<forall>b t b' t'. snd (fst (transport E b t (result_request rid))) =
                        snd (fst (transport E b' t' (result_request rid)))"
    and "to_string rid = Inr r"
  shows "fst (fetch_result E rid s) = fst (fetch_result E rid s')"
proof -
  have "fst (fetch_result E rid s) =
          settle E (snd (fst (transport E (backend s) (now s) (result_request rid))))" for s :: "'a world"
    using assms(2)
    by (simp add: fetch_result_eq client_get_def axios_request_def result_request_def split: prod.splits)
  then show ?thesis using assms(1) by metis
qed

lemma poll_first_completed:
  assumes "0 < timeout"
    and "reported_job E jobId s = Some job"
    and "field job ''status'' = JNum 3"
    and "truthy (field job ''query_result_id'')"
  shows "pollQueryResults (Suc fuel) E jobId timeout interval s =
     Some (case fst (fetch_result E (field job ''query_result_id'') (after_status E jobId s)) of
             Inl e \<Rightarrow> Inl (poll_catch E jobId e)
           | Inr result \<Rightarrow> Inr result,
           snd (fetch_result E (field job ''query_result_id'') (after_status E jobId s)))"
  using assms(1) poll_attempt_completed [OF assms(2,3,4)]
  by (simp add: pollQueryResults_def split: prod.splits sum.splits)

lemma axios_request_eq:
  assumes "transport E (backend s) (now s) req = ((lat, rep), b)"
  shows "axios_request E req s =
           (settle E rep, s\<lparr>now := now s + lat, sent := sent s @ [req], backend := b\<rparr>)"
  using assms by (simp add: axios_request_def)

lemma settle_rejected:
  assumes "settle E rep = Inl e"
  shows "(\<forall>status data. rep = Response status data \<longrightarrow>
            \<not> (200 \<le> status \<and> status < 300) \<and>
            message_of e = ''Request failed with status code '' @ number_text E status) \<and>
         (\<forall>m. rep = NoResponse m \<longrightarrow> message_of e = m)"
  using assms by (auto simp: settle_def split: reply.splits if_splits)

lemma executeQuery_rejected:
  assumes "transport E (backend s) (now s) (execute_request query dataSourceId parameters maxAge)
             = ((lat, rep), b)"
    and "settle E rep = Inl e"
  shows "executeQuery fuel E query dataSourceId parameters maxAge s =
           Some (Inl (Error (''Failed to execute query: '' @ message_of e)),
                 s\<lparr>now := now s + lat,
                   sent := sent s @ [execute_request query dataSourceId parameters maxAge],
                   backend := b\<rparr>)"
  using axios_request_eq [OF assms(1)] assms(2)
  by (simp add: executeQuery_def client_post_def execute_request_def execute_error_def)

lemma executeQueryById_rejected:
  assumes "transport E (backend s) (now s) (execute_by_id_request queryId parameters)
             = ((lat, rep), b)"
    and "settle E rep = Inl e"
  shows "executeQueryById fuel E queryId parameters s =
           Some (Inl (Error (''Failed to execute query '' @ show_safe queryId)),
                 s\<lparr>now := now s + lat,
                   sent := sent s @ [execute_by_id_request queryId parameters],
                   backend := b\<rparr>)"
  using axios_request_eq [OF assms(1)] assms(2)
  by (simp add: executeQueryById_def client_post_def execute_by_id_request_def execute_by_id_error_def)

lemma show_safe_7: "show_safe 7 = ''7''"
  by (simp add: show_safe_def show_int_def show_nat_digit digit_char_def)

lemma show_nat_500: "show_nat 500 = ''500''"
  by (simp add: show_nat.simps [of 500] show_nat.simps [of 50] show_nat_digit digit_char_def)

lemma executeQuery_immediate:
  assumes "transport E (backend s) (now s) (execute_request query dataSourceId parameters maxAge)
             = ((lat, Response status data), b)"
    and "200 \<le> status \<and> status < 300"
    and "get_prop data ''job'' = Inr job" and "\<not> truthy job"
  shows "executeQuery fuel E query dataSourceId parameters maxAge s =
           Some (Inr (field data ''query_result''),
                 s\<lparr>now := now s + lat,
                   sent := sent s @ [execute_request query dataSourceId parameters maxAge],
                   backend := b\<rparr>)"
proof -
  have "get_prop data ''query_result'' = Inr (field data ''query_result'')"
    using assms(3) by (cases data) (simp_all add: field_def)
  then show ?thesis
    using axios_request_eq [OF assms(1)] assms(2,3,4)
    by (simp add: executeQuery_def client_post_def execute_request_def settle_def)
qed

lemma executeQueryById_immediate:
  assumes "transport E (backend s) (now s) (execute_by_id_request queryId parameters)
             = ((lat, Response status data), b)"
    and "200 \<le> status \<and> status < 300"
    and "get_prop data ''job'' = Inr job" and "\<not> truthy job"
  shows "executeQueryById fuel E queryId parameters s =
           Some (Inr data,
                 s\<lparr>now := now s + lat,
                   sent := sent s @ [execute_by_id_request queryId parameters],
                   backend := b\<rparr>)"
  using axios_request_eq [OF assms(1)] assms(2,3,4)
  by (simp add: executeQueryById_def client_post_def execute_by_id_request_def settle_def)


section \<open>The properties\<close>

text \<open>C1. When the status fetches of a job report non-terminal statuses \<open>k\<close> times and
  then, still before the timeout, status 3 with a truthy \<open>query_result_id\<close>, and the
  fetch of \<open>/api/query_results/{query_result_id}\<close> succeeds, \<open>pollQueryResults\<close>
  returns exactly the body of that fetch; the requests it sent are the \<open>k + 1\<close> status
  fetches followed by the one result fetch.\<close>

theorem poll_completed_returns_fetched_payload:
  assumes "keeps_polling k E jobId timeout interval (now s) s"
    and "now (after_polls k E jobId interval s) - now s < timeout"
    and "reported_job E jobId (after_polls k E jobId interval s) = Some job"
    and "field job ''status'' = JNum 3"
    and "truthy (field job ''query_result_id'')"
    and "fetch_result E (field job ''query_result_id'')
           (after_status E jobId (after_polls k E jobId interval s)) = (Inr payload, s')"
  shows "pollQueryResults (k + Suc fuel) E jobId timeout interval s = Some (Inr payload, s') \<and>
         sent s' = sent s @ replicate (Suc k) (job_request jobId)
                     @ [result_request (field job ''query_result_id'')]"
proof -
  let ?sk = "after_polls k E jobId interval s"
  have "pollQueryResults (k + Suc fuel) E jobId timeout interval s =
        poll_loop (Suc fuel) E jobId timeout interval (now s) ?sk"
    using assms(1) by (simp only: pollQueryResults_def poll_loop_after_polls)
  also have "\<dots> = Some (Inr payload, s')"
    using assms(2) poll_attempt_completed [OF assms(3,4,5)] assms(6) by simp
  finally have run: "pollQueryResults (k + Suc fuel) E jobId timeout interval s = Some (Inr payload, s')" .
  have "sent s' = sent (after_status E jobId ?sk) @ [result_request (field job ''query_result_id'')]"
    using assms(6) by (rule fetch_result_Inr_sent)
  then have "sent s' = sent s @ replicate (Suc k) (job_request jobId)
                     @ [result_request (field job ''query_result_id'')]"
    by (simp add: after_status_after_polls_sent [OF assms(1,3)])
  with run show ?thesis by simp
qed

theorem poll_completed_returns_fetched_payload_witness:
  "pollQueryResults 3 scripted (JStr ''abc'') 60000 1000 scenario2 =
     Some (Inr (JObj [(''id'', JNum 42)]),
           \<lparr>now = 2550,
            sent = [job_request (JStr ''abc''), job_request (JStr ''abc''), job_request (JStr ''abc''),
                    result_request (JNum 42)],
            backend = []\<rparr>)"
proof -
  have "pollQueryResults (Suc (Suc 0) + Suc 0) scripted (JStr ''abc'') 60000 1000 scenario2 =
     Some (Inr (JObj [(''id'', JNum 42)]),
           \<lparr>now = 2550,
            sent = [job_request (JStr ''abc''), job_request (JStr ''abc''), job_request (JStr ''abc''),
                    result_request (JNum 42)],
            backend = []\<rparr>)"
    using poll_completed_returns_fetched_payload [of "Suc (Suc 0)" scripted "JStr ''abc''" 60000 1000 scenario2
        "JObj [(''status'', JNum 3), (''query_result_id'', JNum 42)]" "JObj [(''id'', JNum 42)]" _ 0]
    by (simp add: run_defs scenario2_def)
  then show ?thesis by (simp add: numeral_3_eq_3)
qed

text \<open>C4. When, after \<open>k\<close> non-terminal polls and still before the timeout, the status
  fetch reports status 4 with the error text \<open>m\<close>, \<open>pollQueryResults\<close> fails with
  an \<open>Error\<close> whose message ends with \<open>m\<close>, unmodified: it is
  \<open>Failed to poll for query results (job <jobId>): Query execution failed: m\<close>.\<close>

theorem poll_failed_carries_backend_error:
  assumes "keeps_polling k E jobId timeout interval (now s) s"
    and "now (after_polls k E jobId interval s) - now s < timeout"
    and "reported_job E jobId (after_polls k E jobId interval s) = Some job"
    and "field job ''status'' = JNum 4"
    and "field job ''error'' = JStr m"
  shows "pollQueryResults (k + Suc fuel) E jobId timeout interval s =
           Some (Inl (Error (poll_prefix jobId @ '': Query execution failed: '' @ m)),
                 after_status E jobId (after_polls k E jobId interval s))"
proof -
  let ?sk = "after_polls k E jobId interval s"
  from assms(3) obtain j where j: "to_string jobId = Inr j" by (rule reported_job_convertible)
  have t: "to_string (field job ''error'') = Inr m" using assms(5) by simp
  have "pollQueryResults (k + Suc fuel) E jobId timeout interval s =
        poll_loop (Suc fuel) E jobId timeout interval (now s) ?sk"
    using assms(1) by (simp only: pollQueryResults_def poll_loop_after_polls)
  also have "\<dots> = Some (Inl (Error (poll_prefix jobId @ '': Query execution failed: '' @ m)),
                 after_status E jobId ?sk)"
    using assms(2) poll_attempt_failed [OF assms(3,4) t] by (simp add: poll_catch_Error [OF j])
  finally show ?thesis .
qed

theorem poll_failed_carries_backend_error_witness:
  "pollQueryResults 2 scripted (JStr ''abc'') 60000 1000 failed_run =
     Some (Inl (Error (poll_prefix (JStr ''abc'') @ '': Query execution failed: division by zero'')),
           \<lparr>now = 1200, sent = [job_request (JStr ''abc''), job_request (JStr ''abc'')], backend = []\<rparr>)"
proof -
  have "pollQueryResults (Suc 0 + Suc 0) scripted (JStr ''abc'') 60000 1000 failed_run =
     Some (Inl (Error (poll_prefix (JStr ''abc'') @ '': Query execution failed: division by zero'')),
           \<lparr>now = 1200, sent = [job_request (JStr ''abc''), job_request (JStr ''abc'')], backend = []\<rparr>)"
    using poll_failed_carries_backend_error [of "Suc 0" scripted "JStr ''abc''" 60000 1000 failed_run
        "JObj [(''status'', JNum 4), (''error'', JStr ''division by zero'')]" "''division by zero''" 0]
    by (simp add: run_defs failed_run_def)
  then show ?thesis by (simp add: numeral_2_eq_2)
qed

text \<open>C5. When the status fetch reports status 3 and the job descriptor has no
  \<open>query_result_id\<close>, \<open>pollQueryResults\<close> fails with an \<open>Error\<close> that says
  so; it returns no result, and it sends nothing after that status fetch (no retry).\<close>

theorem poll_completed_without_result_id:
  assumes "keeps_polling k E jobId timeout interval (now s) s"
    and "now (after_polls k E jobId interval s) - now s < timeout"
    and "reported_job E jobId (after_polls k E jobId interval s) = Some job"
    and "field job ''status'' = JNum 3"
    and "field job ''query_result_id'' = JUndefined"
  shows "pollQueryResults (k + Suc fuel) E jobId timeout interval s =
           Some (Inl (Error (poll_prefix jobId @ '': Query completed but no query_result_id was provided'')),
                 after_status E jobId (after_polls k E jobId interval s)) \<and>
         sent (after_status E jobId (after_polls k E jobId interval s)) =
           sent s @ replicate (Suc k) (job_request jobId)"
  using poll_no_result_id [OF assms(1,2,3,4)] assms(5)
  by (simp only: after_status_after_polls_sent [OF assms(1,3)] truthy.simps not_False_eq_True simp_thms)

theorem poll_completed_without_result_id_witness:
  "pollQueryResults 1 scripted (JStr ''abc'') 60000 1000 no_id_run =
     Some (Inl (Error (poll_prefix (JStr ''abc'') @ '': Query completed but no query_result_id was provided'')),
           \<lparr>now = 100, sent = [job_request (JStr ''abc'')], backend = []\<rparr>)"
  using poll_completed_without_result_id [of 0 scripted "JStr ''abc''" 60000 1000 no_id_run
        "JObj [(''status'', JNum 3)]" 0]
  by (simp add: run_defs no_id_run_def)

text \<open>C9. A \<open>query_result_id\<close> that is present but falsy (\<open>null\<close>,
  \<open>false\<close>, \<open>0\<close> or the empty string) on a job of status 3 is treated as absent:
  the same error is raised and no result fetch is sent.\<close>

theorem poll_falsy_result_id_is_absent:
  assumes "keeps_polling k E jobId timeout interval (now s) s"
    and "now (after_polls k E jobId interval s) - now s < timeout"
    and "reported_job E jobId (after_polls k E jobId interval s) = Some (JObj members)"
    and "map_of members ''status'' = Some (JNum 3)"
    and "map_of members ''query_result_id'' = Some v"
    and "v = JNull \<or> v = JBool False \<or> v = JNum 0 \<or> v = JStr []"
  shows "pollQueryResults (k + Suc fuel) E jobId timeout interval s =
           Some (Inl (Error (poll_prefix jobId @ '': Query completed but no query_result_id was provided'')),
                 after_status E jobId (after_polls k E jobId interval s)) \<and>
         sent (after_status E jobId (after_polls k E jobId interval s)) =
           sent s @ replicate (Suc k) (job_request jobId)"
proof -
  have st: "field (JObj members) ''status'' = JNum 3"
    using assms(4) by (simp add: field_def)
  have "field (JObj members) ''query_result_id'' = v"
    using assms(5) by (simp add: field_def)
  then have "\<not> truthy (field (JObj members) ''query_result_id'')"
    using assms(6) by auto
  from poll_no_result_id [OF assms(1,2,3) st this] show ?thesis
    by (simp only: after_status_after_polls_sent [OF assms(1,3)] simp_thms)
qed

theorem poll_falsy_result_id_is_absent_witness:
  "pollQueryResults 1 scripted (JStr ''abc'') 60000 1000 falsy_id_run =
     Some (Inl (Error (poll_prefix (JStr ''abc'') @ '': Query completed but no query_result_id was provided'')),
           \<lparr>now = 100, sent = [job_request (JStr ''abc'')], backend = []\<rparr>)"
  using poll_falsy_result_id_is_absent [of 0 scripted "JStr ''abc''" 60000 1000 falsy_id_run
        "[(''status'', JNum 3), (''query_result_id'', JNum 0)]" "JNum 0" 0]
  by (simp add: run_defs falsy_id_run_def)






text \<open>C3. On the same immediate answer \<open>{query_result: {id: 10}}\<close>, with no polling
  in either case, \<open>executeQuery\<close> returns the result \<open>{id: 10}\<close> and
  \<open>executeQueryById\<close> returns the whole body \<open>{query_result: {id: 10}}\<close>.\<close>

theorem executeQueryById_returns_envelope:
  "executeQuery 0 scripted ''SELECT 1'' 5 JUndefined None direct_run =
     Some (Inr (JObj [(''id'', JNum 10)]),
           \<lparr>now = 80, sent = [execute_request ''SELECT 1'' 5 JUndefined None], backend = []\<rparr>) \<and>
   executeQueryById 0 scripted 7 JUndefined direct_run =
     Some (Inr (JObj [(''query_result'', JObj [(''id'', JNum 10)])]),
           \<lparr>now = 80, sent = [execute_by_id_request 7 JUndefined], backend = []\<rparr>)"
  by (simp add: executeQuery_def executeQueryById_def direct_run_def direct_body_def
       execute_request_def execute_by_id_request_def run_defs)

text \<open>C7 (as amended). When the submission request of \<open>executeQuery\<close> gets no
  response or a response outside 2xx, it fails with the message
  \<open>Failed to execute query: \<close> followed by the message of the axios error (which names
  the status code of a response, and never its body). When that of
  \<open>executeQueryById\<close> does, it fails with \<open>Failed to execute query <queryId>\<close>,
  which names neither. Each has then sent exactly one request.\<close>

theorem submission_failure_surfaces_without_retry:
  "(transport E (backend s) (now s) (execute_request query dataSourceId parameters maxAge)
        = ((lat1, rep1), b1) \<and> settle E rep1 = Inl e1 \<longrightarrow>
      executeQuery fuel E query dataSourceId parameters maxAge s =
        Some (Inl (Error (''Failed to execute query: '' @ message_of e1)),
              s\<lparr>now := now s + lat1,
                sent := sent s @ [execute_request query dataSourceId parameters maxAge],
                backend := b1\<rparr>) \<and>
      (\<forall>status data. rep1 = Response status data \<longrightarrow>
         message_of e1 = ''Request failed with status code '' @ number_text E status) \<and>
      (\<forall>m. rep1 = NoResponse m \<longrightarrow> message_of e1 = m)) \<and>
   (transport E (backend s) (now s) (execute_by_id_request queryId parameters)
        = ((lat2, rep2), b2) \<and> settle E rep2 = Inl e2 \<longrightarrow>
      executeQueryById fuel E queryId parameters s =
        Some (Inl (Error (''Failed to execute query '' @ show_safe queryId)),
              s\<lparr>now := now s + lat2,
                sent := sent s @ [execute_by_id_request queryId parameters],
                backend := b2\<rparr>))"
  using executeQuery_rejected [of E s query dataSourceId parameters maxAge lat1 rep1 b1 e1 fuel]
    executeQueryById_rejected [of E s queryId parameters lat2 rep2 b2 e2 fuel]
    settle_rejected [of E rep1 e1]
  by blast

theorem submission_failure_surfaces_without_retry_witness:
  "executeQuery 0 scripted ''SELECT 1'' 5 JUndefined None rejected_run =
     Some (Inl (Error ''Failed to execute query: Request failed with status code 500''),
           \<lparr>now = 80, sent = [execute_request ''SELECT 1'' 5 JUndefined None], backend = []\<rparr>) \<and>
   executeQueryById 0 scripted 7 JUndefined rejected_run =
     Some (Inl (Error ''Failed to execute query 7''),
           \<lparr>now = 80, sent = [execute_by_id_request 7 JUndefined], backend = []\<rparr>)"
proof -
  let ?e = "AxiosError (''Request failed with status code '' @ show_nat 500) (Some (500, JStr ''boom''))"
  have a: "executeQuery 0 scripted ''SELECT 1'' 5 JUndefined None rejected_run =
     Some (Inl (Error ''Failed to execute query: Request failed with status code 500''),
           \<lparr>now = 80, sent = [execute_request ''SELECT 1'' 5 JUndefined None], backend = []\<rparr>)"
    using submission_failure_surfaces_without_retry [of scripted rejected_run "''SELECT 1''" 5 JUndefined None
        80 "Response 500 (JStr ''boom'')" "[]" ?e 0, THEN conjunct1]
    by (simp add: rejected_run_def scripted_def start_with_def settle_def number_text_def show_nat_500)
  have b: "executeQueryById 0 scripted 7 JUndefined rejected_run =
     Some (Inl (Error ''Failed to execute query 7''),
           \<lparr>now = 80, sent = [execute_by_id_request 7 JUndefined], backend = []\<rparr>)"
    using submission_failure_surfaces_without_retry [of scripted rejected_run _ _ JUndefined _
        _ _ _ _ _ 7 80 "Response 500 (JStr ''boom'')" "[]" ?e, THEN conjunct2]
    by (simp add: rejected_run_def scripted_def start_with_def settle_def number_text_def show_safe_7)
  from a b show ?thesis by blast
qed

text \<open>The error of \<open>executeQueryById\<close> after a response with status 500 and body
  \<open>boom\<close> carries neither the status code nor the body.\<close>

theorem submission_error_lacks_status_and_body_counterexample:
  "executeQueryById 0 scripted 7 JUndefined rejected_run =
     Some (Inl (Error ''Failed to execute query 7''),
           \<lparr>now = 80, sent = [execute_by_id_request 7 JUndefined], backend = []\<rparr>) \<and>
   \<not> sublist ''500'' ''Failed to execute query 7'' \<and>
   \<not> sublist ''boom'' ''Failed to execute query 7''"
proof -
  have "executeQueryById 0 scripted 7 JUndefined rejected_run =
     Some (Inl (Error ''Failed to execute query 7''),
           \<lparr>now = 80, sent = [execute_by_id_request 7 JUndefined], backend = []\<rparr>)"
    by (simp add: executeQueryById_def execute_by_id_error_def execute_by_id_request_def
         rejected_run_def run_defs show_safe_7)
  moreover have "\<not> sublist ''500'' ''Failed to execute query 7''" by code_simp
  moreover have "\<not> sublist ''boom'' ''Failed to execute query 7''" by code_simp
  ultimately show ?thesis by blast
qed

text \<open>C8. On a backend that always answers the fetch of result \<open>rid\<close> alike, two
  polls that find their job completed with result \<open>rid\<close> (in whatever states, the second
  possibly right after the first) end with the same outcome, and each of them sends the
  result request again: nothing is cached. (An id that has no string conversion cannot be
  written into the path: then no result request is sent, by either poll.)\<close>

theorem result_fetch_repeats_and_agrees:
  assumes "\<forall>b t b' t'. snd (fst (transport E b t (result_request rid))) =
                        snd (fst (transport E b' t' (result_request rid)))"
    and "0 < timeout"
    and "reported_job E jobId s1 = Some job1"
    and "field job1 ''status'' = JNum 3"
    and "field job1 ''query_result_id'' = rid"
    and "reported_job E jobId s2 = Some job2"
    and "field job2 ''status'' = JNum 3"
    and "field job2 ''query_result_id'' = rid"
    and "truthy rid"
  shows "\<exists>r t1 t2.
           pollQueryResults (Suc fuel1) E jobId timeout interval s1 = Some (r, t1) \<and>
           pollQueryResults (Suc fuel2) E jobId timeout interval s2 = Some (r, t2) \<and>
           sent t1 = sent s1 @ job_request jobId #
                       (case to_string rid of Inl e \<Rightarrow> [] | Inr p \<Rightarrow> [result_request rid]) \<and>
           sent t2 = sent s2 @ job_request jobId #
                       (case to_string rid of Inl e \<Rightarrow> [] | Inr p \<Rightarrow> [result_request rid])"
proof -
  have t1: "truthy (field job1 ''query_result_id'')" and t2: "truthy (field job2 ''query_result_id'')"
    using assms(5,8,9) by simp_all
  note p1 = poll_first_completed [OF assms(2,3,4) t1, of fuel1 interval]
  note p2 = poll_first_completed [OF assms(2,6,7) t2, of fuel2 interval]
  show ?thesis
  proof (cases "to_string rid")
    case (Inr p)
    have same: "fst (fetch_result E rid (after_status E jobId s1)) =
                fst (fetch_result E rid (after_status E jobId s2))"
      using assms(1) Inr by (rule fetch_result_stable)
    show ?thesis
      using p1 p2 same
      by (simp add: assms(5,8) Inr fetch_result_sent [OF Inr] after_status_sent [OF assms(3)]
            after_status_sent [OF assms(6)])
  next
    case (Inl e)
    then have "fetch_result E rid s = (Inl e, s)" for s :: "'a world"
      by (simp add: fetch_result_def)
    then show ?thesis
      using p1 p2
      by (simp add: assms(5,8) Inl after_status_sent [OF assms(3)] after_status_sent [OF assms(6)])
  qed
qed

theorem result_fetch_repeats_and_agrees_witness:
  "\<exists>r t1 t2.
      pollQueryResults (Suc 0) stable_backend (JStr ''abc'') 60000 1000 slow_start = Some (r, t1) \<and>
      pollQueryResults (Suc 0) stable_backend (JStr ''abc'') 60000 1000 slow_end = Some (r, t2) \<and>
      sent t1 = sent slow_start @ [job_request (JStr ''abc''), result_request (JNum 42)] \<and>
      sent t2 = sent slow_end @ [job_request (JStr ''abc''), result_request (JNum 42)]"
proof -
  let ?job = "JObj [(''status'', JNum 3), (''query_result_id'', JNum 42)]"
  have h1: "\<forall>b t b' t'. snd (fst (transport stable_backend b t (result_request (JNum 42)))) =
                        snd (fst (transport stable_backend b' t' (result_request (JNum 42))))"
    by (simp add: stable_backend_def)
  have h2: "0 < (60000::nat)" by simp
  have h3: "reported_job stable_backend (JStr ''abc'') slow_start = Some ?job"
    by (simp add: stable_backend_def run_defs)
  have h4: "field ?job ''status'' = JNum 3" by (simp add: field_def)
  have h5: "field ?job ''query_result_id'' = JNum 42" by (simp add: field_def)
  have h6: "reported_job stable_backend (JStr ''abc'') slow_end = Some ?job"
    by (simp add: stable_backend_def run_defs)
  have h7: "truthy (JNum 42)" by simp
  from result_fetch_repeats_and_agrees [OF h1 h2 h3 h4 h5 h6 h4 h5 h7, of 0 1000 0]
  show ?thesis by simp
qed

text \<open>C10. When a status fetch is answered with status 500 and the body
  \<open>{"message": {"toString": 1}}\<close>, the \<open>catch\<close> block throws while it builds its
  message, and \<open>pollQueryResults\<close> fails with a \<open>TypeError\<close> whose message does
  not begin with \<open>Failed to poll for query results (job abc)\<close>.\<close>

theorem poll_catch_block_throws_without_prefix:
  "pollQueryResults 1 scripted (JStr ''abc'') 60000 1000 unprintable_run =
     Some (Inl (TypeError ''Cannot convert object to primitive value''),
           \<lparr>now = 70, sent = [job_request (JStr ''abc'')], backend = []\<rparr>) \<and>
   \<not> prefix ''Failed to poll for query results (job abc)'' ''Cannot convert object to primitive value''"
  by (simp add: pollQueryResults_def poll_attempt_def poll_catch_def cannot_convert_def
       unprintable_run_def run_defs)

end
